theory Spec2Isabelle
  imports Main "HOL-Library.Word"
begin

section \<open>The attribute request engine of adv\_ble.c\<close>

text \<open>
  A shallow embedding of the GATT attribute request engine, the connection handling and
  the worker watchdog of \<^verbatim>\<open>src/adv_ble.c\<close>. The C globals \<^verbatim>\<open>_adv_ble\<close>,
  \<^verbatim>\<open>_adv_ble_var\<close>, \<^verbatim>\<open>_adv_ble_worker_engine\<close> and the one field of
  \<^verbatim>\<open>_adv_ble_advertising\<close> the code writes are the fields of one record, passed in
  and returned. Every function keeps its C name without the leading underscore.
  Trace messages (\<^verbatim>\<open>MSGV\<close>) have no effect on the state and are left out.
\<close>

subsection \<open>Error codes (adv\_errors.h)\<close>

text \<open>The values of \<^verbatim>\<open>enum pa_error\<close> the engine uses; the code negates them.\<close>

definition PE_NO_ERROR :: int where "PE_NO_ERROR = 0"
definition PE_DEFERRED :: int where "PE_DEFERRED = 1"
definition PE_ABORT :: int where "PE_ABORT = 2"
definition PE_INTERNAL :: int where "PE_INTERNAL = 3"
definition PE_NOT_SUPPORTED :: int where "PE_NOT_SUPPORTED = 7"
definition PE_OVERFLOW :: int where "PE_OVERFLOW = 8"
definition PE_INVALID_REQUEST :: int where "PE_INVALID_REQUEST = 9"
definition PE_INVALID_UUID :: int where "PE_INVALID_UUID = 10"
definition PE_READ_ONLY :: int where "PE_READ_ONLY = 11"
definition PE_INVALID_COMMAND :: int where "PE_INVALID_COMMAND = 17"
definition PE_BUSY :: int where "PE_BUSY = 19"

subsection \<open>What the code uses of the SoftDevice interface\<close>

text \<open>
  The enumerations below are declared by the vendor SDK headers the file includes. Only
  the enumerators the code names are kept; their numeric values play no role in the code
  beyond being distinct, so each enumeration is a datatype.
\<close>

datatype gatts_op =
  BLE_GATTS_OP_INVALID | BLE_GATTS_OP_WRITE_REQ | BLE_GATTS_OP_WRITE_CMD
  | BLE_GATTS_OP_SIGN_WRITE_CMD | BLE_GATTS_OP_PREP_WRITE_REQ
  | BLE_GATTS_OP_EXEC_WRITE_REQ_CANCEL | BLE_GATTS_OP_EXEC_WRITE_REQ_NOW

datatype gatt_status =
  BLE_GATT_STATUS_SUCCESS | BLE_GATT_STATUS_ATTERR_READ_NOT_PERMITTED
  | BLE_GATT_STATUS_ATTERR_WRITE_NOT_PERMITTED | BLE_GATT_STATUS_ATTERR_UNLIKELY_ERROR
  | APP_FEATURE_NOT_SUPPORTED

datatype authorize_type = BLE_GATTS_AUTHORIZE_TYPE_READ | BLE_GATTS_AUTHORIZE_TYPE_WRITE

datatype hci_status =
  BLE_HCI_REMOTE_USER_TERMINATED_CONNECTION | BLE_HCI_CONN_INTERVAL_UNACCEPTABLE

datatype adv_mode = BLE_ADV_MODE_FAST | BLE_ADV_MODE_SLOW

definition BLE_CONN_HANDLE_INVALID :: "16 word" where "BLE_CONN_HANDLE_INVALID = 0xFFFF"
definition BLE_UUID_TYPE_BLE :: "8 word" where "BLE_UUID_TYPE_BLE = 1"
definition BLE_UUID_TYPE_VENDOR_BEGIN :: "8 word" where "BLE_UUID_TYPE_VENDOR_BEGIN = 2"
definition NRF_SUCCESS :: "32 word" where "NRF_SUCCESS = 0"
definition NRF_FAULT_ID_SDK_ASSERT :: "32 word" where "NRF_FAULT_ID_SDK_ASSERT = 0x4002"

subsection \<open>Constants of adv\_ble.c\<close>

definition ADV_CHAR_UUID_BASE :: "16 word" where "ADV_CHAR_UUID_BASE = 0x1001"
definition ADV_BLE_SLEEP_DELAY_S :: "32 word" where "ADV_BLE_SLEEP_DELAY_S = 3600"
definition ADV_BLE_WORKER_PACE_S :: "32 word" where "ADV_BLE_WORKER_PACE_S = 5"
definition ADV_BLE_STALL_DELAY_S :: "32 word" where "ADV_BLE_STALL_DELAY_S = 120"
definition ADV_ERROR :: nat where "ADV_ERROR = 0"
definition ADV_FIRST :: nat where "ADV_FIRST = 0"

subsection \<open>Data\<close>

text \<open>
  Pointers are symbolic. A \<^verbatim>\<open>const uint8_t *\<close> of the engine is null, the
  \<^verbatim>\<open>data\<close> array of the write event being handled, the transient buffer
  \<^verbatim>\<open>_adv_ble_var.pv_transient\<close>, or the storage \<^verbatim>\<open>pa_var\<close> of an attribute. A
  \<^verbatim>\<open>struct adv_ble_attribute *\<close> is \<open>None\<close> for null and \<open>Some i\<close> for
  \<^verbatim>\<open>&_adv_ble.bp_attributes[i]\<close>.
\<close>

datatype pointer = NULL | PTR_wr_evt_data | PTR_pv_transient | PTR_pa_var nat

record ble_uuid =
  uuid_val :: "16 word"
  uuid_type :: "8 word"

record pa_error_desc =
  pe_errno :: "8 word"
  pe_attr :: "8 word"
  pe_state :: "8 word"
  pe_comp :: "8 word"
  pe_payload :: "32 word"

text \<open>
  The callbacks of an attribute. A writer receives the payload and its length and returns
  a code. A reader receives the attribute; of what it may do to it the model keeps the
  meaningful length: it is given \<^verbatim>\<open>pa_size\<close> and \<^verbatim>\<open>pa_length\<close> and returns
  its code and the \<^verbatim>\<open>pa_length\<close> it leaves.
\<close>

type_synonym adv_ble_attr_writer_t = "8 word list \<Rightarrow> 32 word \<Rightarrow> int"
type_synonym adv_ble_attr_reader_t = "32 word \<Rightarrow> 32 word \<Rightarrow> int \<times> 32 word"

text \<open>
  \<^verbatim>\<open>struct adv_ble_attribute\<close>, without the fields only the registration with the
  SoftDevice reads (identifier, metadata, handles, properties, label) and without
  \<^verbatim>\<open>pa_var\<close>, which is \<open>PTR_pa_var i\<close> for attribute \<open>i\<close>.
\<close>

record adv_ble_attribute =
  pa_size :: "32 word"
  pa_length :: "32 word"
  pa_reader :: "adv_ble_attr_reader_t option"
  pa_writer :: "adv_ble_attr_writer_t option"
  pa_varsize :: bool

record adv_ble_attr_event =
  ae_data :: pointer
  ae_length :: "16 word"
  ae_offset :: "16 word"
  ae_attr :: "nat option"

record rw_authorize_reply =
  ar_type :: authorize_type
  ar_gatt_status :: gatt_status
  ar_update :: bool
  ar_offset :: "16 word"
  ar_len :: "16 word"
  ar_p_data :: pointer

text \<open>
  What the engine does to the world outside its globals is recorded, in order, in a list
  of calls: the SoftDevice functions it calls, with their arguments, and the attribute
  callbacks it runs.
\<close>

datatype call =
  SD_BLE_GATTS_RW_AUTHORIZE_REPLY "16 word" rw_authorize_reply
  | SD_BLE_GAP_DISCONNECT "16 word" hci_status
  | SD_BLE_USER_MEM_REPLY "16 word"
  | SD_BLE_GATTS_SYS_ATTR_SET "16 word"
  | BLE_ADVERTISING_START adv_mode
  | PA_WRITER nat "8 word list" "32 word"
  | PA_READER nat

text \<open>
  The globals. \<open>bp_attributes\<close> is the array \<^verbatim>\<open>bp_attributes[ADV_COUNT]\<close>; the
  repository declares one attribute, \<^verbatim>\<open>ADV_ERROR\<close>, and the engine is written for
  any number of them, so \<open>ADV_COUNT\<close> is the length of the table here. \<open>pv_error\<close> is
  the storage of attribute \<^verbatim>\<open>ADV_ERROR\<close> (its \<^verbatim>\<open>pa_var\<close>, by the static
  initialiser of \<^verbatim>\<open>_adv_ble\<close>).
\<close>

record globals =
  bp_attributes :: "adv_ble_attribute list"
  bp_conn_handle :: "16 word"
  bp_attr_event :: adv_ble_attr_event
  bp_entering_sleep :: bool
  bp_reboot :: bool
  pv_error :: pa_error_desc
  pv_transient :: "8 word list"
  we_enable :: bool
  we_running :: bool
  we_time :: "32 word"
  we_last_time :: "32 word"
  we_worker_ix :: "32 word"
  ble_adv_fast_timeout :: "32 word"
  calls :: "call list"

definition ADV_COUNT :: "globals \<Rightarrow> nat" where
  "ADV_COUNT g = length (bp_attributes g)"

definition ADV_LAST :: "globals \<Rightarrow> nat" where
  "ADV_LAST g = ADV_COUNT g"

text \<open>The pending record after \<^verbatim>\<open>memset\<close> to zero, or after each field is reset.\<close>

definition no_attr_event :: adv_ble_attr_event where
  "no_attr_event = \<lparr>ae_data = NULL, ae_length = 0, ae_offset = 0, ae_attr = None\<rparr>"

text \<open>
  The events of the SoftDevice the handler tells apart, with the parameters it reads. All
  event structures start with the connection handle.
\<close>

record ble_gatts_evt_write =
  wr_uuid :: ble_uuid
  wr_op :: gatts_op
  wr_offset :: "16 word"
  wr_len :: "16 word"
  wr_data :: "8 word list"

record ble_gatts_evt_read =
  rd_uuid :: ble_uuid
  rd_offset :: "16 word"

datatype authorize_request =
  AUTHORIZE_WRITE ble_gatts_evt_write | AUTHORIZE_READ ble_gatts_evt_read | AUTHORIZE_INVALID

datatype ble_evt_params =
  BLE_GAP_EVT_CONNECTED | BLE_GAP_EVT_DISCONNECTED | BLE_GAP_EVT_TIMEOUT
  | BLE_GAP_EVT_ADV_SET_TERMINATED | BLE_GAP_EVT_CONN_PARAM_UPDATE
  | BLE_EVT_USER_MEM_REQUEST | BLE_GATTC_EVT_TIMEOUT | BLE_GATTS_EVT_SYS_ATTR_MISSING
  | BLE_GATTS_EVT_TIMEOUT | BLE_GATTS_EVT_RW_AUTHORIZE_REQUEST authorize_request
  | BLE_GATTS_EVT_WRITE ble_gatts_evt_write | BLE_GATTS_EVT_HVN_TX_COMPLETE
  | BLE_EVT_OTHER

record ble_evt =
  evt_conn_handle :: "16 word"
  evt_params :: ble_evt_params

datatype ble_adv_evt =
  BLE_ADV_EVT_IDLE | BLE_ADV_EVT_DIRECTED_HIGH_DUTY | BLE_ADV_EVT_DIRECTED
  | BLE_ADV_EVT_FAST | BLE_ADV_EVT_SLOW | BLE_ADV_EVT_FAST_WHITELIST
  | BLE_ADV_EVT_SLOW_WHITELIST | BLE_ADV_EVT_WHITELIST_REQUEST
  | BLE_ADV_EVT_PEER_ADDR_REQUEST

subsection \<open>Faults and the SoftDevice's answers\<close>

text \<open>
  \<^verbatim>\<open>APP_ERROR_CHECK\<close> on a code other than \<^verbatim>\<open>NRF_SUCCESS\<close> ends in
  \<^verbatim>\<open>app_error_fault_handler\<close> (adv\_main.c), which resets the chip or spins: the
  function that called it never returns. A function that can get there returns
  \<open>fault + globals\<close>. \<open>INVALID_POINTER\<close> stands for the dereference of a null or
  out-of-table attribute pointer.

  The return code of a SoftDevice function is not decided by this code: the parameter
  \<open>sd\<close> gives it, from the calls made so far, the one being answered last.
\<close>

datatype fault = APP_ERROR "32 word" | INVALID_POINTER

type_synonym softdevice = "call list \<Rightarrow> 32 word"

definition sd_call :: "softdevice \<Rightarrow> call \<Rightarrow> globals \<Rightarrow> 32 word \<times> globals" where
  "sd_call sd c g = (sd (calls g @ [c]), g\<lparr>calls := calls g @ [c]\<rparr>)"

definition callback :: "call \<Rightarrow> globals \<Rightarrow> globals" where
  "callback c g = g\<lparr>calls := calls g @ [c]\<rparr>"

definition APP_ERROR_CHECK :: "32 word \<Rightarrow> globals \<Rightarrow> fault + globals" where
  "APP_ERROR_CHECK rc g = (if rc \<noteq> NRF_SUCCESS then Inl (APP_ERROR rc) else Inr g)"

definition attribute_at :: "globals \<Rightarrow> nat option \<Rightarrow> fault + nat \<times> adv_ble_attribute" where
  "attribute_at g p =
     (case p of
        None \<Rightarrow> Inl INVALID_POINTER
      | Some i \<Rightarrow>
          if i < length (bp_attributes g) then Inr (i, bp_attributes g ! i)
          else Inl INVALID_POINTER)"

subsection \<open>Attribute registry and error recorder\<close>

definition adv_ble_attribute_char :: "globals \<Rightarrow> nat option \<Rightarrow> nat" where
  "adv_ble_attribute_char g pa_attr =
     (case pa_attr of
        None \<Rightarrow> ADV_COUNT g
      | Some i \<Rightarrow> if i \<ge> ADV_COUNT g then ADV_COUNT g else i)"

definition adv_ble_get_attribute :: "globals \<Rightarrow> nat \<Rightarrow> fault + nat" where
  "adv_ble_get_attribute g pa_char =
     (if pa_char \<ge> ADV_FIRST \<and> pa_char < ADV_LAST g then Inr pa_char
      else Inl (APP_ERROR NRF_FAULT_ID_SDK_ASSERT))"

text \<open>
  The returned pointer (the error attribute) is used by no caller and is not returned
  here. \<^verbatim>\<open>(int8_t)errno\<close> and \<^verbatim>\<open>(uint8_t)pa_char\<close> keep the low eight bits.
\<close>

definition adv_ble_set_error_on_attr :: "globals \<Rightarrow> int \<Rightarrow> nat \<Rightarrow> fault + globals" where
  "adv_ble_set_error_on_attr g errno pa_char0 =
     (let pa_char = (if pa_char0 < ADV_FIRST \<or> pa_char0 \<ge> ADV_LAST g then ADV_ERROR
                     else pa_char0)
      in case adv_ble_get_attribute g pa_char of
           Inl f \<Rightarrow> Inl f
         | Inr pa_attr \<Rightarrow>
             (case adv_ble_get_attribute g ADV_ERROR of
                Inl f \<Rightarrow> Inl f
              | Inr pa_error \<Rightarrow>
                  Inr (g\<lparr>pv_error := (pv_error g)\<lparr>pe_errno := word_of_int errno,
                                                    pe_attr := of_nat pa_char\<rparr>\<rparr>)))"

text \<open>The output parameter \<^verbatim>\<open>pa_char\<close> is the index of the returned attribute.\<close>

definition adv_ble_retrieve_attribute ::
  "globals \<Rightarrow> ble_uuid \<Rightarrow> fault + nat option \<times> globals" where
  "adv_ble_retrieve_attribute g ble_uuid =
     (if uuid_val ble_uuid < ADV_CHAR_UUID_BASE \<or> uuid_type ble_uuid \<noteq> BLE_UUID_TYPE_VENDOR_BEGIN
      then (case adv_ble_set_error_on_attr g (- PE_INVALID_UUID) ADV_ERROR of
              Inl f \<Rightarrow> Inl f
            | Inr g1 \<Rightarrow> Inr (None, g1))
      else
        let attr_ix = uuid_val ble_uuid - ADV_CHAR_UUID_BASE
        in if unat attr_ix \<ge> ADV_COUNT g
           then (case adv_ble_set_error_on_attr g (- PE_INVALID_UUID) ADV_ERROR of
                   Inl f \<Rightarrow> Inl f
                 | Inr g1 \<Rightarrow> Inr (None, g1))
           else Inr (Some (unat attr_ix), g))"

subsection \<open>Worker engine\<close>

definition adv_ble_worker_feed :: "globals \<Rightarrow> globals" where
  "adv_ble_worker_feed g = g\<lparr>we_last_time := we_time g\<rparr>"

definition adv_ble_worker_run_next :: "globals \<Rightarrow> globals" where
  "adv_ble_worker_run_next g = g\<lparr>we_running := False\<rparr>"

definition adv_ble_worker_update_ble_status :: "globals \<Rightarrow> bool \<Rightarrow> globals" where
  "adv_ble_worker_update_ble_status g active =
     (if \<not> active then g\<lparr>we_enable := True\<rparr> else g\<lparr>we_enable := False\<rparr>)"

text \<open>The code of \<^verbatim>\<open>sd_ble_gap_disconnect\<close> is only traced here.\<close>

definition adv_ble_disconnect :: "softdevice \<Rightarrow> globals \<Rightarrow> globals" where
  "adv_ble_disconnect sd g =
     (if BLE_CONN_HANDLE_INVALID \<noteq> bp_conn_handle g
      then snd (sd_call sd (SD_BLE_GAP_DISCONNECT (bp_conn_handle g)
                              BLE_HCI_REMOTE_USER_TERMINATED_CONNECTION) g)
      else g)"

text \<open>
  \<^verbatim>\<open>we_time\<close> and \<^verbatim>\<open>we_last_time\<close> are \<^verbatim>\<open>unsigned int\<close>: the sum and the
  difference wrap at 32 bits and the comparison is unsigned.
\<close>

definition adv_ble_worker_timer_cb :: "softdevice \<Rightarrow> globals \<Rightarrow> globals" where
  "adv_ble_worker_timer_cb sd g =
     (let g1 = g\<lparr>we_time := we_time g + ADV_BLE_WORKER_PACE_S\<rparr>
      in if \<not> we_enable g1 then
           (if we_time g1 - we_last_time g1 > ADV_BLE_STALL_DELAY_S then
              (if BLE_CONN_HANDLE_INVALID \<noteq> bp_conn_handle g1 then adv_ble_disconnect sd g1
               else g1)
            else g1)
         else if we_running g1 then g1
         else adv_ble_worker_run_next (g1\<lparr>we_running := True, we_worker_ix := 0\<rparr>))"

subsection \<open>Write requests\<close>

text \<open>
  \<open>pa_attr\<close> is the index of the attribute the caller resolved, below \<open>ADV_COUNT\<close>.
  The comparisons of the 16-bit \<^verbatim>\<open>len\<close> with the \<^verbatim>\<open>size_t\<close> \<^verbatim>\<open>pa_size\<close>
  are made at 32 bits. \<^verbatim>\<open>memcpy\<close> overwrites the first \<^verbatim>\<open>ae_length\<close> bytes of
  the transient buffer with those of the event's data; the event is taken to carry the
  \<^verbatim>\<open>len\<close> bytes it announces. The writer is a function of its arguments: what a
  writer might do to the globals is not modelled.
\<close>

definition adv_ble_write_attribute ::
  "globals \<Rightarrow> nat \<Rightarrow> ble_gatts_evt_write \<Rightarrow> int \<times> globals" where
  "adv_ble_write_attribute g pa_attr wr_evt =
     (let attr = bp_attributes g ! pa_attr in
      if wr_op wr_evt \<noteq> BLE_GATTS_OP_WRITE_REQ then (- PE_INVALID_COMMAND, g)
      else if wr_offset wr_evt \<noteq> 0 then (- PE_NOT_SUPPORTED, g)
      else if pa_varsize attr \<and> ucast (wr_len wr_evt) > pa_size attr then (- PE_OVERFLOW, g)
      else if \<not> pa_varsize attr \<and> ucast (wr_len wr_evt) \<noteq> pa_size attr
        then (- PE_INVALID_REQUEST, g)
      else
        case pa_writer attr of
          None \<Rightarrow> (- PE_READ_ONLY, g)
        | Some writer \<Rightarrow>
            if ae_data (bp_attr_event g) \<noteq> NULL \<or> ae_attr (bp_attr_event g) \<noteq> None
            then (- PE_BUSY, g)
            else
              let g1 = adv_ble_worker_feed g;
                  g2 = g1\<lparr>bp_attr_event :=
                          \<lparr>ae_data = PTR_wr_evt_data, ae_length = wr_len wr_evt,
                           ae_offset = wr_offset wr_evt, ae_attr = Some pa_attr\<rparr>\<rparr>
              in if ae_length (bp_attr_event g2) > 16 then (- PE_NOT_SUPPORTED, g2)
                 else
                   let rc = writer (wr_data wr_evt) (ucast (wr_len wr_evt));
                       g3 = callback (PA_WRITER pa_attr (wr_data wr_evt) (ucast (wr_len wr_evt))) g2
                   in if rc = PE_DEFERRED then
                        (if ae_length (bp_attr_event g3) > 0 then
                           (rc, g3\<lparr>pv_transient :=
                                     take (unat (ae_length (bp_attr_event g3))) (wr_data wr_evt)
                                     @ drop (unat (ae_length (bp_attr_event g3))) (pv_transient g3),
                                   bp_attr_event :=
                                     (bp_attr_event g3)\<lparr>ae_data := PTR_pv_transient\<rparr>\<rparr>)
                         else
                           (rc, g3\<lparr>bp_attr_event :=
                                     (bp_attr_event g3)\<lparr>ae_data := NULL, ae_length := 0\<rparr>\<rparr>))
                      else (rc, g3))"

text \<open>
  The sum \<^verbatim>\<open>ae_length + ae_offset\<close> of two 16-bit values is computed as an
  \<^verbatim>\<open>int\<close> and cannot wrap. The record is reset before the SoftDevice is called.
\<close>

definition adv_ble_complete_write_req :: "softdevice \<Rightarrow> globals \<Rightarrow> int \<Rightarrow> fault + globals" where
  "adv_ble_complete_write_req sd g retcode0 =
     (let event = bp_attr_event g;
          retcode = (if ae_data event = NULL \<or> ae_attr event = None then - PE_INTERNAL
                     else retcode0)
      in case
           (if retcode < 0 then
              (if retcode \<noteq> - PE_ABORT then
                 (case adv_ble_set_error_on_attr g retcode
                         (adv_ble_attribute_char g (ae_attr event)) of
                    Inl f \<Rightarrow> Inl f
                  | Inr g1 \<Rightarrow> Inr (BLE_GATT_STATUS_ATTERR_WRITE_NOT_PERMITTED, g1))
               else Inr (BLE_GATT_STATUS_ATTERR_UNLIKELY_ERROR, g))
            else
              (case attribute_at g (ae_attr event) of
                 Inl f \<Rightarrow> Inl f
               | Inr (i, attr) \<Rightarrow>
                   Inr (BLE_GATT_STATUS_SUCCESS,
                        g\<lparr>bp_attributes := (bp_attributes g)
                             [i := attr\<lparr>pa_length :=
                                          ucast (ae_length event) + ucast (ae_offset event)\<rparr>]\<rparr>)))
         of
           Inl f \<Rightarrow> Inl f
         | Inr (gatt_status, g1) \<Rightarrow>
             let auth_reply =
                   \<lparr>ar_type = BLE_GATTS_AUTHORIZE_TYPE_WRITE, ar_gatt_status = gatt_status,
                    ar_update = (PE_NO_ERROR = retcode), ar_offset = ae_offset event,
                    ar_len = ae_length event, ar_p_data = ae_data event\<rparr>;
                 g2 = g1\<lparr>bp_attr_event := no_attr_event\<rparr>;
                 (errcode, g3) =
                   sd_call sd (SD_BLE_GATTS_RW_AUTHORIZE_REPLY (bp_conn_handle g2) auth_reply) g2
             in APP_ERROR_CHECK errcode g3)"

definition adv_ble_write_req ::
  "softdevice \<Rightarrow> globals \<Rightarrow> ble_gatts_evt_write \<Rightarrow> fault + globals" where
  "adv_ble_write_req sd g wr_evt =
     (if wr_op wr_evt = BLE_GATTS_OP_PREP_WRITE_REQ
         \<or> wr_op wr_evt = BLE_GATTS_OP_EXEC_WRITE_REQ_NOW
         \<or> wr_op wr_evt = BLE_GATTS_OP_EXEC_WRITE_REQ_CANCEL
      then
        let auth_reply =
              \<lparr>ar_type = BLE_GATTS_AUTHORIZE_TYPE_WRITE,
               ar_gatt_status = APP_FEATURE_NOT_SUPPORTED, ar_update = False,
               ar_offset = 0, ar_len = 0, ar_p_data = NULL\<rparr>;
            (errcode, g1) =
              sd_call sd (SD_BLE_GATTS_RW_AUTHORIZE_REPLY (bp_conn_handle g) auth_reply) g
        in APP_ERROR_CHECK errcode g1
      else
        case adv_ble_retrieve_attribute g (wr_uuid wr_evt) of
          Inl f \<Rightarrow> Inl f
        | Inr (pa_attr0, g1) \<Rightarrow>
            (let (pa_attr, rc0) =
                   (if bp_entering_sleep g1 then (None, - PE_ABORT)
                    else (pa_attr0, - PE_INVALID_UUID));
                 (rc, g2) =
                   (case pa_attr of
                      None \<Rightarrow> (rc0, g1)
                    | Some i \<Rightarrow> adv_ble_write_attribute g1 i wr_evt)
             in if pa_attr \<noteq> None \<and> PE_DEFERRED = rc then Inr g2
                else
                  (case adv_ble_complete_write_req sd g2 rc of
                     Inl f \<Rightarrow> Inl f
                   | Inr g3 \<Rightarrow>
                       if rc = 0 \<and> bp_reboot g3 then Inr (adv_ble_disconnect sd g3)
                       else Inr g3)))"

subsection \<open>Read requests\<close>

text \<open>The record is reset after \<^verbatim>\<open>APP_ERROR_CHECK\<close>, when the reply was accepted.\<close>

definition adv_ble_complete_read_req :: "softdevice \<Rightarrow> globals \<Rightarrow> int \<Rightarrow> fault + globals" where
  "adv_ble_complete_read_req sd g retcode0 =
     (let event = bp_attr_event g;
          retcode1 = (if ae_attr event = None then - PE_INTERNAL else retcode0)
      in case
           (if retcode1 = 0 then
              (case attribute_at g (ae_attr event) of
                 Inl f \<Rightarrow> Inl f
               | Inr (i, attr) \<Rightarrow>
                   Inr (if pa_length attr = 0 then - PE_INTERNAL else retcode1))
            else Inr retcode1)
         of
           Inl f \<Rightarrow> Inl f
         | Inr retcode \<Rightarrow>
             (case
                (if retcode = 0 then
                   (case attribute_at g (ae_attr event) of
                      Inl f \<Rightarrow> Inl f
                    | Inr (i, attr) \<Rightarrow>
                        Inr (sd_call sd
                               (SD_BLE_GATTS_RW_AUTHORIZE_REPLY (bp_conn_handle g)
                                  \<lparr>ar_type = BLE_GATTS_AUTHORIZE_TYPE_READ,
                                   ar_gatt_status = BLE_GATT_STATUS_SUCCESS,
                                   ar_update = True, ar_offset = 0,
                                   ar_len = ucast (pa_length attr),
                                   ar_p_data = PTR_pa_var i\<rparr>) g))
                 else
                   (case
                      (if retcode \<noteq> - PE_ABORT then
                         (case adv_ble_set_error_on_attr g retcode
                                 (adv_ble_attribute_char g (ae_attr event)) of
                            Inl f \<Rightarrow> Inl f
                          | Inr g1 \<Rightarrow> Inr (BLE_GATT_STATUS_ATTERR_READ_NOT_PERMITTED, g1))
                       else Inr (BLE_GATT_STATUS_ATTERR_UNLIKELY_ERROR, g))
                    of
                      Inl f \<Rightarrow> Inl f
                    | Inr (gatt_status, g1) \<Rightarrow>
                        Inr (sd_call sd
                               (SD_BLE_GATTS_RW_AUTHORIZE_REPLY (bp_conn_handle g1)
                                  \<lparr>ar_type = BLE_GATTS_AUTHORIZE_TYPE_READ,
                                   ar_gatt_status = gatt_status, ar_update = False,
                                   ar_offset = 0, ar_len = 0, ar_p_data = NULL\<rparr>) g1)))
              of
                Inl f \<Rightarrow> Inl f
              | Inr (errcode, g2) \<Rightarrow>
                  (case APP_ERROR_CHECK errcode g2 of
                     Inl f \<Rightarrow> Inl f
                   | Inr g3 \<Rightarrow> Inr (g3\<lparr>bp_attr_event := no_attr_event\<rparr>))))"

definition adv_ble_read_req ::
  "softdevice \<Rightarrow> globals \<Rightarrow> ble_gatts_evt_read \<Rightarrow> fault + globals" where
  "adv_ble_read_req sd g rd_evt =
     (case adv_ble_retrieve_attribute g (rd_uuid rd_evt) of
        Inl f \<Rightarrow> Inl f
      | Inr (pa_attr0, g1) \<Rightarrow>
          (let rc0 = (if pa_attr0 = None then - PE_INVALID_UUID else - PE_INTERNAL);
               (pa_attr1, rc1) =
                 (if rd_offset rd_evt \<noteq> 0 then (None, - PE_NOT_SUPPORTED) else (pa_attr0, rc0));
               (pa_attr2, rc2) =
                 (if bp_entering_sleep g1 then (None, - PE_ABORT) else (pa_attr1, rc1));
               (pa_attr, rc) =
                 (if ae_data (bp_attr_event g1) \<noteq> NULL \<or> ae_attr (bp_attr_event g1) \<noteq> None
                  then (None, - PE_BUSY) else (pa_attr2, rc2))
           in (case pa_attr of
                 None \<Rightarrow> adv_ble_complete_read_req sd g1 rc
               | Some i \<Rightarrow>
                   (let g2 = adv_ble_worker_feed g1;
                        g3 = g2\<lparr>bp_attr_event := (bp_attr_event g2)\<lparr>ae_attr := Some i\<rparr>\<rparr>;
                        attr = bp_attributes g3 ! i;
                        attr1 = attr\<lparr>pa_length :=
                                       (if pa_varsize attr then 0 else pa_size attr)\<rparr>;
                        g4 = g3\<lparr>bp_attributes := (bp_attributes g3)[i := attr1]\<rparr>
                    in (case pa_reader attr1 of
                          Some reader \<Rightarrow>
                            (let g5 = g4\<lparr>bp_attr_event :=
                                          (bp_attr_event g4)\<lparr>ae_data := NULL, ae_length := 0,
                                                              ae_offset := 0\<rparr>\<rparr>;
                                 (rc', len') = reader (pa_size attr1) (pa_length attr1);
                                 g6 = callback (PA_READER i)
                                        (g5\<lparr>bp_attributes :=
                                              (bp_attributes g5)
                                                [i := attr1\<lparr>pa_length := len'\<rparr>]\<rparr>)
                             in if PE_DEFERRED = rc' then Inr g6
                                else adv_ble_complete_read_req sd g6 rc')
                        | None \<Rightarrow> adv_ble_complete_read_req sd g4 PE_NO_ERROR)))))"

subsection \<open>Connection and advertising events\<close>

definition adv_ble_handle_disconnect :: "globals \<Rightarrow> globals" where
  "adv_ble_handle_disconnect g = g\<lparr>bp_attr_event := no_attr_event\<rparr>"

definition adv_ble_enter_sleep :: "globals \<Rightarrow> globals" where
  "adv_ble_enter_sleep g =
     g\<lparr>ble_adv_fast_timeout := ADV_BLE_SLEEP_DELAY_S, bp_entering_sleep := True\<rparr>"

definition adv_ble_adv_event_handler :: "globals \<Rightarrow> ble_adv_evt \<Rightarrow> globals" where
  "adv_ble_adv_event_handler g ble_adv_evt =
     (case ble_adv_evt of
        BLE_ADV_EVT_IDLE \<Rightarrow> callback (BLE_ADVERTISING_START BLE_ADV_MODE_SLOW) g
      | BLE_ADV_EVT_SLOW \<Rightarrow> adv_ble_enter_sleep g
      | _ \<Rightarrow> g)"

text \<open>
  For a standard identifier both branches of the \<^verbatim>\<open>switch\<close> return; otherwise the
  lookup is made for its warnings (and the error it records).
\<close>

definition adv_ble_write_attr :: "globals \<Rightarrow> ble_gatts_evt_write \<Rightarrow> fault + globals" where
  "adv_ble_write_attr g wr_evt =
     (if BLE_UUID_TYPE_BLE = uuid_type (wr_uuid wr_evt) then Inr g
      else case adv_ble_retrieve_attribute g (wr_uuid wr_evt) of
             Inl f \<Rightarrow> Inl f
           | Inr (pa_attr, g1) \<Rightarrow> Inr g1)"

text \<open>
  \<^verbatim>\<open>_adv_ble_evt_handler\<close> is one C function; its second \<^verbatim>\<open>switch\<close>, reached
  from three places of the first part, is a definition of its own here.
\<close>

definition adv_ble_evt_handler_switch :: "softdevice \<Rightarrow> globals \<Rightarrow> ble_evt \<Rightarrow> fault + globals" where
  "adv_ble_evt_handler_switch sd g ble_evt =
     (case evt_params ble_evt of
        BLE_GAP_EVT_CONNECTED \<Rightarrow>
          (let g1 = g\<lparr>bp_reboot := False\<rparr>;
               g2 = adv_ble_worker_update_ble_status g1 True
           in Inr (g2\<lparr>bp_conn_handle := evt_conn_handle ble_evt,
                      ble_adv_fast_timeout := ADV_BLE_SLEEP_DELAY_S\<rparr>))
      | BLE_GAP_EVT_DISCONNECTED \<Rightarrow>
          Inr (adv_ble_handle_disconnect (g\<lparr>bp_conn_handle := BLE_CONN_HANDLE_INVALID\<rparr>))
      | BLE_EVT_USER_MEM_REQUEST \<Rightarrow>
          (let (rc, g1) = sd_call sd (SD_BLE_USER_MEM_REPLY (evt_conn_handle ble_evt)) g
           in APP_ERROR_CHECK rc g1)
      | BLE_GATTC_EVT_TIMEOUT \<Rightarrow>
          (let (rc, g1) = sd_call sd (SD_BLE_GAP_DISCONNECT (evt_conn_handle ble_evt)
                                        BLE_HCI_REMOTE_USER_TERMINATED_CONNECTION) g
           in APP_ERROR_CHECK rc g1)
      | BLE_GATTS_EVT_SYS_ATTR_MISSING \<Rightarrow>
          (let (rc, g1) = sd_call sd (SD_BLE_GATTS_SYS_ATTR_SET (evt_conn_handle ble_evt)) g
           in APP_ERROR_CHECK rc g1)
      | BLE_GATTS_EVT_TIMEOUT \<Rightarrow>
          (let (rc, g1) = sd_call sd (SD_BLE_GAP_DISCONNECT (evt_conn_handle ble_evt)
                                        BLE_HCI_REMOTE_USER_TERMINATED_CONNECTION) g
           in APP_ERROR_CHECK rc g1)
      | BLE_GATTS_EVT_RW_AUTHORIZE_REQUEST req \<Rightarrow>
          (case req of
             AUTHORIZE_WRITE wr_evt \<Rightarrow> adv_ble_write_req sd g wr_evt
           | AUTHORIZE_READ rd_evt \<Rightarrow> adv_ble_read_req sd g rd_evt
           | AUTHORIZE_INVALID \<Rightarrow> Inr g)
      | BLE_GATTS_EVT_WRITE wr_evt \<Rightarrow> adv_ble_write_attr (adv_ble_worker_feed g) wr_evt
      | _ \<Rightarrow> Inr g)"

definition adv_ble_evt_handler :: "softdevice \<Rightarrow> globals \<Rightarrow> ble_evt \<Rightarrow> fault + globals" where
  "adv_ble_evt_handler sd g ble_evt =
     (if BLE_CONN_HANDLE_INVALID = bp_conn_handle g then
        (case evt_params ble_evt of
           BLE_GAP_EVT_CONNECTED \<Rightarrow> adv_ble_evt_handler_switch sd g ble_evt
         | BLE_GAP_EVT_DISCONNECTED \<Rightarrow> Inr (adv_ble_handle_disconnect g)
         | _ \<Rightarrow> Inr g)
      else if evt_conn_handle ble_evt \<noteq> bp_conn_handle g
              \<and> evt_conn_handle ble_evt \<noteq> BLE_CONN_HANDLE_INVALID then
        (let (rc, g1) = sd_call sd (SD_BLE_GAP_DISCONNECT (evt_conn_handle ble_evt)
                                      BLE_HCI_REMOTE_USER_TERMINATED_CONNECTION) g
         in case APP_ERROR_CHECK rc g1 of
              Inl f \<Rightarrow> Inl f
            | Inr g2 \<Rightarrow> adv_ble_evt_handler_switch sd g2 ble_evt)
      else adv_ble_evt_handler_switch sd g ble_evt)"

subsection \<open>The globals after start-up\<close>

text \<open>
  The static initialiser of \<^verbatim>\<open>_adv_ble\<close> with its one attribute (the 8-byte error
  record, read on demand, neither reader nor writer), zeroed statics, the connection
  handle as \<^verbatim>\<open>_adv_ble_conn_init\<close> leaves it and the advertising timeout of
  \<^verbatim>\<open>_ADV_BLE_ADVERTISE_INIT\<close>.
\<close>

definition adv_ble_startup :: globals where
  "adv_ble_startup =
     \<lparr>bp_attributes =
        [\<lparr>pa_size = 8, pa_length = 0, pa_reader = None, pa_writer = None,
          pa_varsize = False\<rparr>],
      bp_conn_handle = BLE_CONN_HANDLE_INVALID,
      bp_attr_event = no_attr_event,
      bp_entering_sleep = False,
      bp_reboot = False,
      pv_error = \<lparr>pe_errno = 0, pe_attr = 0, pe_state = 0, pe_comp = 0, pe_payload = 0\<rparr>,
      pv_transient = replicate 16 0,
      we_enable = False,
      we_running = False,
      we_time = 0,
      we_last_time = 0,
      we_worker_ix = 0,
      ble_adv_fast_timeout = ADV_BLE_SLEEP_DELAY_S,
      calls = []\<rparr>"

subsection \<open>Sample configurations\<close>

text \<open>
  Concrete inputs at which the theorems below are instantiated: a SoftDevice that accepts
  every call, a writer that defers, a table with the error attribute, a fixed-size
  attribute of 4 bytes and a variable-size attribute of at most 16 bytes (both writable),
  the globals of a device with that table and a peer connected on handle 0, and a plain
  write request carrying given bytes.
\<close>

definition softdevice_ok :: softdevice where
  "softdevice_ok tr = NRF_SUCCESS"

definition example_writer :: adv_ble_attr_writer_t where
  "example_writer buf n = PE_DEFERRED"

definition example_attributes :: "adv_ble_attribute list" where
  "example_attributes =
     [\<lparr>pa_size = 8, pa_length = 0, pa_reader = None, pa_writer = None, pa_varsize = False\<rparr>,
      \<lparr>pa_size = 4, pa_length = 0, pa_reader = None, pa_writer = Some example_writer,
       pa_varsize = False\<rparr>,
      \<lparr>pa_size = 16, pa_length = 0, pa_reader = None, pa_writer = Some example_writer,
       pa_varsize = True\<rparr>]"

definition example_connected :: globals where
  "example_connected =
     adv_ble_startup\<lparr>bp_attributes := example_attributes, bp_conn_handle := 0\<rparr>"

definition example_write :: "16 word \<Rightarrow> 16 word \<Rightarrow> 8 word list \<Rightarrow> ble_gatts_evt_write" where
  "example_write u off bytes =
     \<lparr>wr_uuid = \<lparr>uuid_val = u, uuid_type = BLE_UUID_TYPE_VENDOR_BEGIN\<rparr>,
      wr_op = BLE_GATTS_OP_WRITE_REQ, wr_offset = off,
      wr_len = of_nat (length bytes), wr_data = bytes\<rparr>"

definition example_pending :: globals where
  "example_pending =
     example_connected\<lparr>bp_attr_event :=
       \<lparr>ae_data = PTR_pv_transient, ae_length = 4, ae_offset = 0, ae_attr = Some 1\<rparr>\<rparr>"

definition example_read_pending :: globals where
  "example_read_pending =
     example_connected\<lparr>bp_attr_event :=
       \<lparr>ae_data = NULL, ae_length = 0, ae_offset = 0, ae_attr = Some 2\<rparr>\<rparr>"

text \<open>
  Further inputs: the device of the repository itself (its one attribute) with a peer
  connected after the sleep flag was raised, a read request for the error attribute, a
  writer that commits at once, and a device with a writable 4-byte attribute whose reboot
  flag is set. No code of the repository sets that flag; the last input stands for what
  application logic outside it would leave.
\<close>

definition example_sleeping :: globals where
  "example_sleeping = adv_ble_startup\<lparr>bp_conn_handle := 0, bp_entering_sleep := True\<rparr>"

definition example_read :: ble_gatts_evt_read where
  "example_read =
     \<lparr>rd_uuid = \<lparr>uuid_val = 0x1001, uuid_type = BLE_UUID_TYPE_VENDOR_BEGIN\<rparr>, rd_offset = 0\<rparr>"



section \<open>Properties\<close>

lemmas pa_error_defs =
  PE_NO_ERROR_def PE_DEFERRED_def PE_ABORT_def PE_INTERNAL_def PE_NOT_SUPPORTED_def
  PE_OVERFLOW_def PE_INVALID_REQUEST_def PE_INVALID_UUID_def PE_READ_ONLY_def
  PE_INVALID_COMMAND_def PE_BUSY_def

lemmas example_defs =
  softdevice_ok_def example_writer_def example_attributes_def example_connected_def
  example_write_def adv_ble_startup_def no_attr_event_def

subsection \<open>Widening a 16-bit length to \<^verbatim>\<open>size_t\<close>\<close>

lemma unat_ucast_16_32: "unat (ucast (x::16 word) :: 32 word) = unat x"
proof -
  have "unat x < 2 ^ 16" using unsigned_less [of x, where 'a = nat] by simp
  then have "unat x < 2 ^ 32" by simp
  then show ?thesis by (simp add: unsigned_ucast_eq take_bit_nat_eq_self)
qed

lemma ucast_eq_unat: "((ucast (x::16 word) :: 32 word) = y) = (unat x = unat y)"
  by (metis unat_ucast_16_32 word_unat_eq_iff)

lemma ucast_less_unat: "(y < (ucast (x::16 word) :: 32 word)) = (unat y < unat x)"
  by (simp add: word_less_nat_alt unat_ucast_16_32)

subsection \<open>Validation of a write request\<close>

text \<open>
  Claim C5. For a plain write request (\<^verbatim>\<open>BLE_GATTS_OP_WRITE_REQ\<close>) on a resolved
  attribute, \<^verbatim>\<open>_adv_ble_write_attribute\<close> returns \<^verbatim>\<open>-PE_NOT_SUPPORTED\<close> for any
  non-zero offset; at offset zero it returns \<^verbatim>\<open>-PE_INVALID_REQUEST\<close> when the
  attribute is fixed-size and the length differs from its size, and
  \<^verbatim>\<open>-PE_OVERFLOW\<close> when the attribute is variable-size and the length exceeds its
  size. In the three cases the globals are returned as they were: the list of calls has
  no writer call added, the pending record and the activity timestamp are untouched.
\<close>

theorem write_attribute_validation:
  assumes "pa_attr < ADV_COUNT g" and "wr_op wr_evt = BLE_GATTS_OP_WRITE_REQ"
  shows "(wr_offset wr_evt \<noteq> 0 \<longrightarrow>
            adv_ble_write_attribute g pa_attr wr_evt = (- PE_NOT_SUPPORTED, g)) \<and>
         (wr_offset wr_evt = 0 \<and> \<not> pa_varsize (bp_attributes g ! pa_attr) \<and>
            unat (wr_len wr_evt) \<noteq> unat (pa_size (bp_attributes g ! pa_attr)) \<longrightarrow>
            adv_ble_write_attribute g pa_attr wr_evt = (- PE_INVALID_REQUEST, g)) \<and>
         (wr_offset wr_evt = 0 \<and> pa_varsize (bp_attributes g ! pa_attr) \<and>
            unat (wr_len wr_evt) > unat (pa_size (bp_attributes g ! pa_attr)) \<longrightarrow>
            adv_ble_write_attribute g pa_attr wr_evt = (- PE_OVERFLOW, g))"
  using assms by (simp add: adv_ble_write_attribute_def Let_def ucast_eq_unat ucast_less_unat)

text \<open>
  The scenarios of the specification: 3 bytes to the 4-byte attribute, 20 bytes to the
  attribute of at most 16, and a write at offset 2.
\<close>

theorem write_attribute_validation_witness:
  "adv_ble_write_attribute example_connected 1 (example_write 0x1002 0 [1, 2, 3])
     = (- PE_INVALID_REQUEST, example_connected) \<and>
   adv_ble_write_attribute example_connected 2 (example_write 0x1003 0 (replicate 20 7))
     = (- PE_OVERFLOW, example_connected) \<and>
   adv_ble_write_attribute example_connected 1 (example_write 0x1002 2 [1, 2, 3, 4])
     = (- PE_NOT_SUPPORTED, example_connected)"
  using write_attribute_validation [of 1 example_connected "example_write 0x1002 0 [1, 2, 3]"]
    write_attribute_validation [of 2 example_connected "example_write 0x1003 0 (replicate 20 7)"]
    write_attribute_validation [of 1 example_connected "example_write 0x1002 2 [1, 2, 3, 4]"]
  by (simp add: example_defs ADV_COUNT_def)

subsection \<open>The error recorder\<close>

lemma set_error_on_attr_eq:
  "adv_ble_set_error_on_attr g e c =
     (if 0 < ADV_COUNT g then
        Inr (g\<lparr>pv_error := (pv_error g)\<lparr>pe_errno := word_of_int e,
                                          pe_attr := of_nat (if c < ADV_COUNT g then c else 0)\<rparr>\<rparr>)
      else Inl (APP_ERROR NRF_FAULT_ID_SDK_ASSERT))"
  by (simp add: adv_ble_set_error_on_attr_def adv_ble_get_attribute_def ADV_LAST_def
      ADV_FIRST_def ADV_ERROR_def Let_def)

subsection \<open>Completion always frees the pending record\<close>

lemma complete_write_req_clears:
  "adv_ble_complete_write_req sd g retcode = Inr g' \<Longrightarrow> bp_attr_event g' = no_attr_event"
  by (auto simp: adv_ble_complete_write_req_def Let_def set_error_on_attr_eq sd_call_def
      APP_ERROR_CHECK_def attribute_at_def split: if_splits sum.splits option.splits prod.splits)

lemma complete_read_req_clears:
  "adv_ble_complete_read_req sd g retcode = Inr g' \<Longrightarrow> bp_attr_event g' = no_attr_event"
  by (auto simp: adv_ble_complete_read_req_def Let_def set_error_on_attr_eq sd_call_def
      APP_ERROR_CHECK_def attribute_at_def split: if_splits sum.splits option.splits prod.splits)

lemma complete_write_req_returns:
  assumes "\<And>tr. sd tr = NRF_SUCCESS" and "0 < ADV_COUNT g"
    and "\<And>i. ae_attr (bp_attr_event g) = Some i \<Longrightarrow> i < ADV_COUNT g"
  shows "\<exists>g'. adv_ble_complete_write_req sd g retcode = Inr g'"
  using assms
  by (auto simp: adv_ble_complete_write_req_def Let_def set_error_on_attr_eq sd_call_def
      APP_ERROR_CHECK_def attribute_at_def ADV_COUNT_def pa_error_defs
      split: if_splits sum.splits option.splits prod.splits)

lemma complete_read_req_returns:
  assumes "\<And>tr. sd tr = NRF_SUCCESS" and "0 < ADV_COUNT g"
    and "\<And>i. ae_attr (bp_attr_event g) = Some i \<Longrightarrow> i < ADV_COUNT g"
  shows "\<exists>g'. adv_ble_complete_read_req sd g retcode = Inr g'"
  using assms
  by (auto simp: adv_ble_complete_read_req_def Let_def set_error_on_attr_eq sd_call_def
      APP_ERROR_CHECK_def attribute_at_def ADV_COUNT_def pa_error_defs
      split: if_splits sum.splits option.splits prod.splits)

text \<open>
  Claim C3. Whatever the completion code and whatever the pending record holds, when
  \<^verbatim>\<open>_adv_ble_complete_write_req\<close> or \<^verbatim>\<open>_adv_ble_complete_read_req\<close> returns,
  the pending record is empty (data pointer null, length and offset zero, no attribute).
  This covers the completions that downgrade to \<^verbatim>\<open>-PE_INTERNAL\<close>. Both functions do
  return when the SoftDevice accepts the reply, the table holds the error attribute and
  the attribute pointer of the record, if set, points into the table; otherwise
  \<^verbatim>\<open>APP_ERROR_CHECK\<close> stops the program.
\<close>

theorem complete_req_clears_pending:
  "(\<forall>g'. adv_ble_complete_write_req sd g retcode = Inr g' \<longrightarrow> bp_attr_event g' = no_attr_event) \<and>
   (\<forall>g'. adv_ble_complete_read_req sd g retcode = Inr g' \<longrightarrow> bp_attr_event g' = no_attr_event) \<and>
   ((\<forall>tr. sd tr = NRF_SUCCESS) \<and> 0 < ADV_COUNT g \<and>
    (\<forall>i. ae_attr (bp_attr_event g) = Some i \<longrightarrow> i < ADV_COUNT g) \<longrightarrow>
      (\<exists>g'. adv_ble_complete_write_req sd g retcode = Inr g') \<and>
      (\<exists>g'. adv_ble_complete_read_req sd g retcode = Inr g'))"
  using complete_write_req_clears [of sd g retcode] complete_read_req_clears [of sd g retcode]
    complete_write_req_returns [of sd g retcode] complete_read_req_returns [of sd g retcode]
  by blast

theorem complete_req_clears_pending_witness:
  "(\<exists>g'. adv_ble_complete_write_req softdevice_ok example_pending (- PE_INTERNAL) = Inr g'
          \<and> bp_attr_event g' = no_attr_event) \<and>
   (\<exists>g'. adv_ble_complete_read_req softdevice_ok example_pending (- PE_INTERNAL) = Inr g'
          \<and> bp_attr_event g' = no_attr_event)"
proof -
  have "(\<forall>tr. softdevice_ok tr = NRF_SUCCESS) \<and> 0 < ADV_COUNT example_pending \<and>
        (\<forall>i. ae_attr (bp_attr_event example_pending) = Some i \<longrightarrow> i < ADV_COUNT example_pending)"
    by (simp add: example_defs example_pending_def ADV_COUNT_def)
  with complete_req_clears_pending [of softdevice_ok example_pending "- PE_INTERNAL"]
  show ?thesis by blast
qed

subsection \<open>A read completed with nothing to serve\<close>

text \<open>
  Claim C6. When \<^verbatim>\<open>_adv_ble_complete_read_req\<close> is called with
  \<^verbatim>\<open>PE_NO_ERROR\<close> and the attribute of the pending record has meaningful length 0,
  the code becomes \<^verbatim>\<open>-PE_INTERNAL\<close>: it is stored in the error record together with
  the attribute's index, and the reply sent to the peer carries the status
  \<^verbatim>\<open>BLE_GATT_STATUS_ATTERR_READ_NOT_PERMITTED\<close>, with no data. The SoftDevice is
  taken to accept the reply.
\<close>

theorem complete_read_zero_length:
  assumes "ae_attr (bp_attr_event g) = Some i" and "i < ADV_COUNT g"
    and "pa_length (bp_attributes g ! i) = 0"
    and "\<And>tr. sd tr = NRF_SUCCESS"
  shows "adv_ble_complete_read_req sd g PE_NO_ERROR =
           Inr (g\<lparr>pv_error := (pv_error g)\<lparr>pe_errno := word_of_int (- PE_INTERNAL),
                                             pe_attr := of_nat i\<rparr>,
                  calls := calls g @
                    [SD_BLE_GATTS_RW_AUTHORIZE_REPLY (bp_conn_handle g)
                       \<lparr>ar_type = BLE_GATTS_AUTHORIZE_TYPE_READ,
                        ar_gatt_status = BLE_GATT_STATUS_ATTERR_READ_NOT_PERMITTED,
                        ar_update = False, ar_offset = 0, ar_len = 0, ar_p_data = NULL\<rparr>],
                  bp_attr_event := no_attr_event\<rparr>)"
  using assms
  by (auto simp: adv_ble_complete_read_req_def Let_def set_error_on_attr_eq sd_call_def
      APP_ERROR_CHECK_def attribute_at_def ADV_COUNT_def pa_error_defs adv_ble_attribute_char_def)

theorem complete_read_zero_length_witness:
  "adv_ble_complete_read_req softdevice_ok example_read_pending PE_NO_ERROR =
     Inr (example_connected
           \<lparr>pv_error := \<lparr>pe_errno = - 3, pe_attr = 2, pe_state = 0, pe_comp = 0,
                          pe_payload = 0\<rparr>,
            calls := [SD_BLE_GATTS_RW_AUTHORIZE_REPLY 0
                       \<lparr>ar_type = BLE_GATTS_AUTHORIZE_TYPE_READ,
                        ar_gatt_status = BLE_GATT_STATUS_ATTERR_READ_NOT_PERMITTED,
                        ar_update = False, ar_offset = 0, ar_len = 0, ar_p_data = NULL\<rparr>]\<rparr>)"
  using complete_read_zero_length [of example_read_pending 2 softdevice_ok]
  by (simp add: example_defs example_read_pending_def ADV_COUNT_def pa_error_defs)

subsection \<open>Deferred writes\<close>

lemma complete_write_req_nil_data:
  assumes "ae_data (bp_attr_event g) = NULL" and "0 < ADV_COUNT g"
    and "\<And>tr. sd tr = NRF_SUCCESS"
  shows "adv_ble_complete_write_req sd g retcode =
           Inr (g\<lparr>pv_error := (pv_error g)\<lparr>pe_errno := word_of_int (- PE_INTERNAL),
                      pe_attr := of_nat (if adv_ble_attribute_char g (ae_attr (bp_attr_event g))
                                            < ADV_COUNT g
                                         then adv_ble_attribute_char g (ae_attr (bp_attr_event g))
                                         else 0)\<rparr>,
                  bp_attr_event := no_attr_event,
                  calls := calls g @
                    [SD_BLE_GATTS_RW_AUTHORIZE_REPLY (bp_conn_handle g)
                       \<lparr>ar_type = BLE_GATTS_AUTHORIZE_TYPE_WRITE,
                        ar_gatt_status = BLE_GATT_STATUS_ATTERR_WRITE_NOT_PERMITTED,
                        ar_update = False, ar_offset = ae_offset (bp_attr_event g),
                        ar_len = ae_length (bp_attr_event g), ar_p_data = NULL\<rparr>]\<rparr>)"
  using assms
  by (simp add: adv_ble_complete_write_req_def Let_def set_error_on_attr_eq sd_call_def
      APP_ERROR_CHECK_def pa_error_defs)

lemma complete_write_req_success:
  assumes "ae_data (bp_attr_event g) \<noteq> NULL" and "ae_attr (bp_attr_event g) = Some i"
    and "i < ADV_COUNT g" and "\<And>tr. sd tr = NRF_SUCCESS"
  shows "adv_ble_complete_write_req sd g PE_NO_ERROR =
           Inr (g\<lparr>bp_attributes := (bp_attributes g)
                    [i := (bp_attributes g ! i)\<lparr>pa_length :=
                        ucast (ae_length (bp_attr_event g)) + ucast (ae_offset (bp_attr_event g))\<rparr>],
                  bp_attr_event := no_attr_event,
                  calls := calls g @
                    [SD_BLE_GATTS_RW_AUTHORIZE_REPLY (bp_conn_handle g)
                       \<lparr>ar_type = BLE_GATTS_AUTHORIZE_TYPE_WRITE,
                        ar_gatt_status = BLE_GATT_STATUS_SUCCESS,
                        ar_update = True, ar_offset = ae_offset (bp_attr_event g),
                        ar_len = ae_length (bp_attr_event g),
                        ar_p_data = ae_data (bp_attr_event g)\<rparr>]\<rparr>)"
  using assms
  by (simp add: adv_ble_complete_write_req_def Let_def sd_call_def
      APP_ERROR_CHECK_def pa_error_defs attribute_at_def ADV_COUNT_def)

lemma write_attribute_accepted:
  assumes "wr_op wr_evt = BLE_GATTS_OP_WRITE_REQ" and "wr_offset wr_evt = 0"
    and "if pa_varsize (bp_attributes g ! pa_attr)
         then unat (wr_len wr_evt) \<le> unat (pa_size (bp_attributes g ! pa_attr))
         else unat (wr_len wr_evt) = unat (pa_size (bp_attributes g ! pa_attr))"
    and "pa_writer (bp_attributes g ! pa_attr) = Some writer"
    and "bp_attr_event g = no_attr_event"
    and "wr_len wr_evt \<le> 16"
  shows "adv_ble_write_attribute g pa_attr wr_evt =
           (let rc = writer (wr_data wr_evt) (ucast (wr_len wr_evt));
                g3 = g\<lparr>we_last_time := we_time g,
                       bp_attr_event :=
                         \<lparr>ae_data = PTR_wr_evt_data, ae_length = wr_len wr_evt,
                          ae_offset = 0, ae_attr = Some pa_attr\<rparr>,
                       calls := calls g @
                         [PA_WRITER pa_attr (wr_data wr_evt) (ucast (wr_len wr_evt))]\<rparr>
            in if rc = PE_DEFERRED then
                 (if 0 < wr_len wr_evt then
                    (rc, g3\<lparr>pv_transient :=
                              take (unat (wr_len wr_evt)) (wr_data wr_evt)
                              @ drop (unat (wr_len wr_evt)) (pv_transient g),
                            bp_attr_event :=
                              \<lparr>ae_data = PTR_pv_transient, ae_length = wr_len wr_evt,
                               ae_offset = 0, ae_attr = Some pa_attr\<rparr>\<rparr>)
                  else
                    (rc, g3\<lparr>bp_attr_event :=
                              \<lparr>ae_data = NULL, ae_length = 0, ae_offset = 0,
                               ae_attr = Some pa_attr\<rparr>\<rparr>))
               else (rc, g3))"
proof -
  have v3: "\<not> 16 < wr_len wr_evt" using assms(6) by simp
  show ?thesis
  proof (cases "pa_varsize (bp_attributes g ! pa_attr)")
    case True
    then have "\<not> pa_size (bp_attributes g ! pa_attr) < ucast (wr_len wr_evt)"
      using assms(3) by (simp add: ucast_less_unat)
    with True v3 assms(1,2,4,5) show ?thesis
      by (simp add: adv_ble_write_attribute_def Let_def no_attr_event_def callback_def
          adv_ble_worker_feed_def)
  next
    case False
    then have "ucast (wr_len wr_evt) = pa_size (bp_attributes g ! pa_attr)"
      using assms(3) by (simp add: ucast_eq_unat)
    with False v3 assms(1,2,4,5) show ?thesis
      by (simp add: adv_ble_write_attribute_def Let_def no_attr_event_def callback_def
          adv_ble_worker_feed_def)
  qed
qed

text \<open>
  Claim C10. A plain write of length 0 that passes the checks of
  \<^verbatim>\<open>_adv_ble_write_attribute\<close> (offset 0, a variable-size attribute or one of size
  0, a writer, a free pending record) and whose writer returns \<^verbatim>\<open>PE_DEFERRED\<close>
  leaves the pending record with a null data pointer. Completing the write from that
  state, with any code, \<^verbatim>\<open>PE_NO_ERROR\<close> included, stores \<^verbatim>\<open>-PE_INTERNAL\<close> and
  the attribute's index in the error record and replies with
  \<^verbatim>\<open>BLE_GATT_STATUS_ATTERR_WRITE_NOT_PERMITTED\<close>, nothing being committed.
\<close>

theorem deferred_write_zero_length:
  assumes "pa_attr < ADV_COUNT g"
    and "pa_writer (bp_attributes g ! pa_attr) = Some writer"
    and "writer (wr_data wr_evt) (ucast (wr_len wr_evt)) = PE_DEFERRED"
    and "wr_op wr_evt = BLE_GATTS_OP_WRITE_REQ" and "wr_offset wr_evt = 0"
    and "wr_len wr_evt = 0"
    and "pa_varsize (bp_attributes g ! pa_attr) \<or> pa_size (bp_attributes g ! pa_attr) = 0"
    and "bp_attr_event g = no_attr_event"
    and "\<And>tr. sd tr = NRF_SUCCESS"
  shows "\<exists>g'. adv_ble_write_attribute g pa_attr wr_evt = (PE_DEFERRED, g') \<and>
              ae_data (bp_attr_event g') = NULL \<and>
              adv_ble_complete_write_req sd g' retcode =
                Inr (g'\<lparr>pv_error := (pv_error g')\<lparr>pe_errno := word_of_int (- PE_INTERNAL),
                                                    pe_attr := of_nat pa_attr\<rparr>,
                        bp_attr_event := no_attr_event,
                        calls := calls g' @
                          [SD_BLE_GATTS_RW_AUTHORIZE_REPLY (bp_conn_handle g')
                             \<lparr>ar_type = BLE_GATTS_AUTHORIZE_TYPE_WRITE,
                              ar_gatt_status = BLE_GATT_STATUS_ATTERR_WRITE_NOT_PERMITTED,
                              ar_update = False, ar_offset = 0, ar_len = 0,
                              ar_p_data = NULL\<rparr>]\<rparr>)"
proof -
  define g' where "g' = snd (adv_ble_write_attribute g pa_attr wr_evt)"
  have s: "if pa_varsize (bp_attributes g ! pa_attr)
           then unat (wr_len wr_evt) \<le> unat (pa_size (bp_attributes g ! pa_attr))
           else unat (wr_len wr_evt) = unat (pa_size (bp_attributes g ! pa_attr))"
    using assms(6,7) by auto
  have l: "wr_len wr_evt \<le> 16" using assms(6) by simp
  have w: "adv_ble_write_attribute g pa_attr wr_evt = (PE_DEFERRED, g')"
    and e: "bp_attr_event g' = no_attr_event\<lparr>ae_attr := Some pa_attr\<rparr>"
    and n: "ADV_COUNT g' = ADV_COUNT g"
    unfolding g'_def
    using write_attribute_accepted [OF assms(4,5) s assms(2,8) l] assms(3,6)
    by (simp_all add: Let_def ADV_COUNT_def no_attr_event_def)
  have d: "ae_data (bp_attr_event g') = NULL" by (simp add: e no_attr_event_def)
  have c: "adv_ble_attribute_char g' (ae_attr (bp_attr_event g')) = pa_attr"
    using assms(1) by (simp add: e n adv_ble_attribute_char_def no_attr_event_def)
  have "0 < ADV_COUNT g'" using assms(1) n by simp
  from complete_write_req_nil_data [OF d this assms(9), where retcode = retcode]
  show ?thesis using w d c assms(1) by (simp add: n e no_attr_event_def)
qed

theorem deferred_write_zero_length_witness:
  "\<exists>g'. adv_ble_write_attribute example_connected 2 (example_write 0x1003 0 [])
            = (PE_DEFERRED, g') \<and>
         ae_data (bp_attr_event g') = NULL \<and>
         adv_ble_complete_write_req softdevice_ok g' PE_NO_ERROR =
           Inr (g'\<lparr>pv_error := (pv_error g')\<lparr>pe_errno := word_of_int (- PE_INTERNAL),
                                               pe_attr := of_nat 2\<rparr>,
                   bp_attr_event := no_attr_event,
                   calls := calls g' @
                     [SD_BLE_GATTS_RW_AUTHORIZE_REPLY (bp_conn_handle g')
                        \<lparr>ar_type = BLE_GATTS_AUTHORIZE_TYPE_WRITE,
                         ar_gatt_status = BLE_GATT_STATUS_ATTERR_WRITE_NOT_PERMITTED,
                         ar_update = False, ar_offset = 0, ar_len = 0,
                         ar_p_data = NULL\<rparr>]\<rparr>)"
  by (rule deferred_write_zero_length [where writer = example_writer])
    (simp_all add: example_defs ADV_COUNT_def)

text \<open>
  Claim C4. A plain write of 1 to 16 bytes that passes the checks of
  \<^verbatim>\<open>_adv_ble_write_attribute\<close> and whose writer returns \<^verbatim>\<open>PE_DEFERRED\<close>: when
  the routine returns, the transient buffer starts with the payload and the data pointer
  of the pending record is the transient buffer. Completing the write from that state
  with \<^verbatim>\<open>PE_NO_ERROR\<close> sends one reply, with status success, the commit flag, the
  offset and the length of the request, and the transient buffer as data.
\<close>

theorem deferred_write_keeps_payload:
  assumes "pa_attr < ADV_COUNT g"
    and "pa_writer (bp_attributes g ! pa_attr) = Some writer"
    and "writer (wr_data wr_evt) (ucast (wr_len wr_evt)) = PE_DEFERRED"
    and "wr_op wr_evt = BLE_GATTS_OP_WRITE_REQ" and "wr_offset wr_evt = 0"
    and "0 < wr_len wr_evt" and "wr_len wr_evt \<le> 16"
    and "if pa_varsize (bp_attributes g ! pa_attr)
         then unat (wr_len wr_evt) \<le> unat (pa_size (bp_attributes g ! pa_attr))
         else unat (wr_len wr_evt) = unat (pa_size (bp_attributes g ! pa_attr))"
    and "bp_attr_event g = no_attr_event"
    and "length (wr_data wr_evt) = unat (wr_len wr_evt)"
    and "\<And>tr. sd tr = NRF_SUCCESS"
  shows "\<exists>g'. adv_ble_write_attribute g pa_attr wr_evt = (PE_DEFERRED, g') \<and>
              take (unat (wr_len wr_evt)) (pv_transient g') = wr_data wr_evt \<and>
              ae_data (bp_attr_event g') = PTR_pv_transient \<and>
              (\<exists>g''. adv_ble_complete_write_req sd g' PE_NO_ERROR = Inr g'' \<and>
                 calls g'' = calls g' @
                   [SD_BLE_GATTS_RW_AUTHORIZE_REPLY (bp_conn_handle g)
                      \<lparr>ar_type = BLE_GATTS_AUTHORIZE_TYPE_WRITE,
                       ar_gatt_status = BLE_GATT_STATUS_SUCCESS, ar_update = True,
                       ar_offset = wr_offset wr_evt, ar_len = wr_len wr_evt,
                       ar_p_data = PTR_pv_transient\<rparr>])"
proof -
  define g' where "g' = snd (adv_ble_write_attribute g pa_attr wr_evt)"
  have "0 < ADV_COUNT g" using assms(1) by simp
  have w: "adv_ble_write_attribute g pa_attr wr_evt = (PE_DEFERRED, g')"
    and e: "bp_attr_event g' =
              \<lparr>ae_data = PTR_pv_transient, ae_length = wr_len wr_evt,
               ae_offset = wr_offset wr_evt, ae_attr = Some pa_attr\<rparr>"
    and n: "ADV_COUNT g' = ADV_COUNT g" and h: "bp_conn_handle g' = bp_conn_handle g"
    and t: "pv_transient g' =
              take (unat (wr_len wr_evt)) (wr_data wr_evt)
              @ drop (unat (wr_len wr_evt)) (pv_transient g)"
    unfolding g'_def
    using write_attribute_accepted [OF assms(4,5,8,2,9,7)] assms(3,5,6)
    by (simp_all add: Let_def ADV_COUNT_def)
  have p: "take (unat (wr_len wr_evt)) (pv_transient g') = wr_data wr_evt"
    using assms(10) by (simp add: t)
  have "adv_ble_complete_write_req sd g' PE_NO_ERROR =
          Inr (g'\<lparr>bp_attributes := (bp_attributes g')
                    [pa_attr := (bp_attributes g' ! pa_attr)\<lparr>pa_length :=
                        ucast (ae_length (bp_attr_event g')) + ucast (ae_offset (bp_attr_event g'))\<rparr>],
                  bp_attr_event := no_attr_event,
                  calls := calls g' @
                    [SD_BLE_GATTS_RW_AUTHORIZE_REPLY (bp_conn_handle g')
                       \<lparr>ar_type = BLE_GATTS_AUTHORIZE_TYPE_WRITE,
                        ar_gatt_status = BLE_GATT_STATUS_SUCCESS,
                        ar_update = True, ar_offset = ae_offset (bp_attr_event g'),
                        ar_len = ae_length (bp_attr_event g'),
                        ar_p_data = ae_data (bp_attr_event g')\<rparr>]\<rparr>)"
    by (rule complete_write_req_success [where i = pa_attr])
      (use assms(1,11) in \<open>simp_all add: e n\<close>)
  then show ?thesis using w p by (simp add: e h)
qed

theorem deferred_write_keeps_payload_witness:
  "\<exists>g'. adv_ble_write_attribute example_connected 2 (example_write 0x1003 0 [1, 2, 3, 4, 5])
            = (PE_DEFERRED, g') \<and>
         take (unat (wr_len (example_write 0x1003 0 [1, 2, 3, 4, 5]))) (pv_transient g')
            = wr_data (example_write 0x1003 0 [1, 2, 3, 4, 5]) \<and>
         ae_data (bp_attr_event g') = PTR_pv_transient \<and>
         (\<exists>g''. adv_ble_complete_write_req softdevice_ok g' PE_NO_ERROR = Inr g'' \<and>
            calls g'' = calls g' @
              [SD_BLE_GATTS_RW_AUTHORIZE_REPLY (bp_conn_handle example_connected)
                 \<lparr>ar_type = BLE_GATTS_AUTHORIZE_TYPE_WRITE,
                  ar_gatt_status = BLE_GATT_STATUS_SUCCESS, ar_update = True,
                  ar_offset = wr_offset (example_write 0x1003 0 [1, 2, 3, 4, 5]),
                  ar_len = wr_len (example_write 0x1003 0 [1, 2, 3, 4, 5]),
                  ar_p_data = PTR_pv_transient\<rparr>])"
  by (rule deferred_write_keeps_payload [where writer = example_writer])
    (simp_all add: example_defs ADV_COUNT_def)

subsection \<open>A write request while an operation is pending\<close>

text \<open>
  Claim C2, as amended. The check of the pending record comes after the checks of the
  operation, the offset, the length and the writer. A plain write request at offset 0
  with an acceptable length, for an attribute that has a writer, reaching
  \<^verbatim>\<open>_adv_ble_write_attribute\<close> while the pending record is occupied (its data
  pointer or its attribute pointer is set) makes the routine return \<^verbatim>\<open>-PE_BUSY\<close>
  and leaves the globals as they were: the pending record keeps its data pointer, length,
  offset and attribute, and the writer is not called.
\<close>

theorem write_attribute_busy:
  assumes "pa_attr < ADV_COUNT g"
    and "wr_op wr_evt = BLE_GATTS_OP_WRITE_REQ" and "wr_offset wr_evt = 0"
    and "if pa_varsize (bp_attributes g ! pa_attr)
         then unat (wr_len wr_evt) \<le> unat (pa_size (bp_attributes g ! pa_attr))
         else unat (wr_len wr_evt) = unat (pa_size (bp_attributes g ! pa_attr))"
    and "pa_writer (bp_attributes g ! pa_attr) = Some writer"
    and "ae_data (bp_attr_event g) \<noteq> NULL \<or> ae_attr (bp_attr_event g) \<noteq> None"
  shows "adv_ble_write_attribute g pa_attr wr_evt = (- PE_BUSY, g)"
proof (cases "pa_varsize (bp_attributes g ! pa_attr)")
  case True
  then have "\<not> pa_size (bp_attributes g ! pa_attr) < ucast (wr_len wr_evt)"
    using assms(4) by (simp add: ucast_less_unat)
  with True assms(2,3,5,6) show ?thesis
    by (auto simp: adv_ble_write_attribute_def Let_def)
next
  case False
  then have "ucast (wr_len wr_evt) = pa_size (bp_attributes g ! pa_attr)"
    using assms(4) by (simp add: ucast_eq_unat)
  with False assms(2,3,5,6) show ?thesis
    by (auto simp: adv_ble_write_attribute_def Let_def)
qed

theorem write_attribute_busy_witness:
  "adv_ble_write_attribute example_pending 1 (example_write 0x1002 0 [1, 2, 3, 4])
     = (- PE_BUSY, example_pending)"
  by (rule write_attribute_busy [where writer = example_writer])
    (simp_all add: example_defs example_pending_def ADV_COUNT_def)

text \<open>
  The claim as stated fails: with a deferred 4-byte write pending on attribute 1, a
  write of 3 bytes to that fixed-size attribute is answered
  \<^verbatim>\<open>-PE_INVALID_REQUEST\<close> by \<^verbatim>\<open>_adv_ble_write_attribute\<close>, and that code, not
  \<^verbatim>\<open>-PE_BUSY\<close>, is what \<^verbatim>\<open>_adv_ble_write_req\<close> stores in the error record.
  (The request handler completes the rejected request as it completes any other, which
  resets the pending record; the amended claim is about the routine and says nothing of
  that step.)
\<close>

theorem write_while_pending_counterexample:
  "ae_data (bp_attr_event example_pending) \<noteq> NULL \<and>
   ae_attr (bp_attr_event example_pending) \<noteq> None \<and>
   adv_ble_write_attribute example_pending 1 (example_write 0x1002 0 [1, 2, 3])
     = (- PE_INVALID_REQUEST, example_pending) \<and>
   - PE_INVALID_REQUEST \<noteq> - PE_BUSY \<and>
   adv_ble_write_req softdevice_ok example_pending (example_write 0x1002 0 [1, 2, 3])
     = Inr (example_connected
             \<lparr>pv_error := \<lparr>pe_errno = word_of_int (- PE_INVALID_REQUEST), pe_attr = 1,
                            pe_state = 0, pe_comp = 0, pe_payload = 0\<rparr>,
              calls := [SD_BLE_GATTS_RW_AUTHORIZE_REPLY 0
                         \<lparr>ar_type = BLE_GATTS_AUTHORIZE_TYPE_WRITE,
                          ar_gatt_status = BLE_GATT_STATUS_ATTERR_WRITE_NOT_PERMITTED,
                          ar_update = False, ar_offset = 0, ar_len = 4,
                          ar_p_data = PTR_pv_transient\<rparr>]\<rparr>)"
  by (simp add: example_defs example_pending_def ADV_COUNT_def adv_ble_write_attribute_def
      adv_ble_write_req_def
      adv_ble_retrieve_attribute_def adv_ble_complete_write_req_def set_error_on_attr_eq
      adv_ble_attribute_char_def sd_call_def APP_ERROR_CHECK_def Let_def pa_error_defs
      ADV_CHAR_UUID_BASE_def BLE_UUID_TYPE_VENDOR_BEGIN_def NRF_SUCCESS_def)

subsection \<open>Requests while entering sleep\<close>

lemma retrieve_attribute_cases:
  assumes "0 < ADV_COUNT g"
  shows "(\<exists>i. adv_ble_retrieve_attribute g u = Inr (Some i, g)) \<or>
         adv_ble_retrieve_attribute g u =
           Inr (None, g\<lparr>pv_error := (pv_error g)\<lparr>pe_errno := word_of_int (- PE_INVALID_UUID),
                                                 pe_attr := 0\<rparr>\<rparr>)"
  using assms
  by (simp add: adv_ble_retrieve_attribute_def set_error_on_attr_eq Let_def ADV_ERROR_def)

lemma complete_read_req_free:
  assumes "bp_attr_event g = no_attr_event" and "0 < ADV_COUNT g"
    and "\<And>tr. sd tr = NRF_SUCCESS"
  shows "adv_ble_complete_read_req sd g retcode =
           Inr (g\<lparr>pv_error := (pv_error g)\<lparr>pe_errno := word_of_int (- PE_INTERNAL),
                                             pe_attr := 0\<rparr>,
                  calls := calls g @
                    [SD_BLE_GATTS_RW_AUTHORIZE_REPLY (bp_conn_handle g)
                       \<lparr>ar_type = BLE_GATTS_AUTHORIZE_TYPE_READ,
                        ar_gatt_status = BLE_GATT_STATUS_ATTERR_READ_NOT_PERMITTED,
                        ar_update = False, ar_offset = 0, ar_len = 0, ar_p_data = NULL\<rparr>]\<rparr>)"
  using assms
  by (simp add: adv_ble_complete_read_req_def Let_def set_error_on_attr_eq sd_call_def
      APP_ERROR_CHECK_def pa_error_defs adv_ble_attribute_char_def no_attr_event_def)

lemma complete_write_req_free:
  assumes "bp_attr_event g = no_attr_event" and "0 < ADV_COUNT g"
    and "\<And>tr. sd tr = NRF_SUCCESS"
  shows "adv_ble_complete_write_req sd g retcode =
           Inr (g\<lparr>pv_error := (pv_error g)\<lparr>pe_errno := word_of_int (- PE_INTERNAL),
                                             pe_attr := 0\<rparr>,
                  calls := calls g @
                    [SD_BLE_GATTS_RW_AUTHORIZE_REPLY (bp_conn_handle g)
                       \<lparr>ar_type = BLE_GATTS_AUTHORIZE_TYPE_WRITE,
                        ar_gatt_status = BLE_GATT_STATUS_ATTERR_WRITE_NOT_PERMITTED,
                        ar_update = False, ar_offset = 0, ar_len = 0, ar_p_data = NULL\<rparr>]\<rparr>)"
  using assms
  by (simp add: adv_ble_complete_write_req_def Let_def set_error_on_attr_eq sd_call_def
      APP_ERROR_CHECK_def pa_error_defs adv_ble_attribute_char_def no_attr_event_def)

text \<open>
  Claim C1 does not hold of the code. The request handlers set the code
  \<^verbatim>\<open>-PE_ABORT\<close> when the sleep flag is set and drop the attribute, so nothing is
  put in the pending record; the completion functions then find the record empty and
  replace the code by \<^verbatim>\<open>-PE_INTERNAL\<close> before they look at it. With the sleep flag
  set and no operation pending, every read request and every plain write request is
  therefore answered with the generic rejection status
  (\<^verbatim>\<open>READ_NOT_PERMITTED\<close>, \<^verbatim>\<open>WRITE_NOT_PERMITTED\<close>) and
  \<^verbatim>\<open>-PE_INTERNAL\<close> is stored in the error record, against attribute 0. The
  status \<^verbatim>\<open>BLE_GATT_STATUS_ATTERR_UNLIKELY_ERROR\<close> is not sent.
\<close>

theorem sleep_request_not_aborted:
  assumes "bp_entering_sleep g" and "bp_attr_event g = no_attr_event"
    and "0 < ADV_COUNT g" and "\<And>tr. sd tr = NRF_SUCCESS"
  shows "adv_ble_read_req sd g rd_evt =
           Inr (g\<lparr>pv_error := (pv_error g)\<lparr>pe_errno := word_of_int (- PE_INTERNAL),
                                             pe_attr := 0\<rparr>,
                  calls := calls g @
                    [SD_BLE_GATTS_RW_AUTHORIZE_REPLY (bp_conn_handle g)
                       \<lparr>ar_type = BLE_GATTS_AUTHORIZE_TYPE_READ,
                        ar_gatt_status = BLE_GATT_STATUS_ATTERR_READ_NOT_PERMITTED,
                        ar_update = False, ar_offset = 0, ar_len = 0, ar_p_data = NULL\<rparr>]\<rparr>) \<and>
         (wr_op wr_evt = BLE_GATTS_OP_WRITE_REQ \<longrightarrow>
          adv_ble_write_req sd g wr_evt =
            Inr (g\<lparr>pv_error := (pv_error g)\<lparr>pe_errno := word_of_int (- PE_INTERNAL),
                                              pe_attr := 0\<rparr>,
                   calls := calls g @
                     [SD_BLE_GATTS_RW_AUTHORIZE_REPLY (bp_conn_handle g)
                        \<lparr>ar_type = BLE_GATTS_AUTHORIZE_TYPE_WRITE,
                         ar_gatt_status = BLE_GATT_STATUS_ATTERR_WRITE_NOT_PERMITTED,
                         ar_update = False, ar_offset = 0, ar_len = 0, ar_p_data = NULL\<rparr>]\<rparr>))"
proof -
  let ?g1 = "g\<lparr>pv_error := (pv_error g)\<lparr>pe_errno := word_of_int (- PE_INVALID_UUID),
                                           pe_attr := 0\<rparr>\<rparr>"
  have f: "bp_attr_event ?g1 = no_attr_event" "0 < ADV_COUNT ?g1"
    using assms(2,3) by (simp_all add: ADV_COUNT_def)
  have r: "adv_ble_read_req sd g rd_evt = adv_ble_complete_read_req sd g (- PE_ABORT) \<or>
           adv_ble_read_req sd g rd_evt = adv_ble_complete_read_req sd ?g1 (- PE_ABORT)"
    using retrieve_attribute_cases [OF assms(3), of "rd_uuid rd_evt"] assms(1,2)
    by (auto simp: adv_ble_read_req_def Let_def no_attr_event_def)
  have w: "wr_op wr_evt = BLE_GATTS_OP_WRITE_REQ \<Longrightarrow>
           adv_ble_write_req sd g wr_evt = adv_ble_complete_write_req sd g (- PE_ABORT) \<or>
           adv_ble_write_req sd g wr_evt = adv_ble_complete_write_req sd ?g1 (- PE_ABORT)"
    using retrieve_attribute_cases [OF assms(3), of "wr_uuid wr_evt"] assms(1,2)
      complete_write_req_free [OF assms(2,3,4), where retcode = "- PE_ABORT"]
      complete_write_req_free [OF f assms(4), where retcode = "- PE_ABORT"]
    by (auto simp: adv_ble_write_req_def Let_def no_attr_event_def pa_error_defs)
  show ?thesis
    using r w complete_read_req_free [OF assms(2,3,4), where retcode = "- PE_ABORT"]
      complete_read_req_free [OF f assms(4), where retcode = "- PE_ABORT"]
      complete_write_req_free [OF assms(2,3,4), where retcode = "- PE_ABORT"]
      complete_write_req_free [OF f assms(4), where retcode = "- PE_ABORT"]
    by auto
qed

text \<open>
  At the repository's own configuration: the advertising module reports slow
  advertising, a peer connects on handle 0 and reads the error attribute (or writes 8
  bytes to it).
\<close>

theorem sleep_request_not_aborted_witness:
  "adv_ble_evt_handler softdevice_ok (adv_ble_adv_event_handler adv_ble_startup BLE_ADV_EVT_SLOW)
     \<lparr>evt_conn_handle = 0, evt_params = BLE_GAP_EVT_CONNECTED\<rparr> = Inr example_sleeping \<and>
   adv_ble_read_req softdevice_ok example_sleeping example_read =
     Inr (example_sleeping
           \<lparr>pv_error := \<lparr>pe_errno = word_of_int (- PE_INTERNAL), pe_attr = 0, pe_state = 0,
                          pe_comp = 0, pe_payload = 0\<rparr>,
            calls := [SD_BLE_GATTS_RW_AUTHORIZE_REPLY 0
                       \<lparr>ar_type = BLE_GATTS_AUTHORIZE_TYPE_READ,
                        ar_gatt_status = BLE_GATT_STATUS_ATTERR_READ_NOT_PERMITTED,
                        ar_update = False, ar_offset = 0, ar_len = 0, ar_p_data = NULL\<rparr>]\<rparr>) \<and>
   adv_ble_write_req softdevice_ok example_sleeping (example_write 0x1001 0 [0, 0, 0, 0, 0, 0, 0, 0]) =
     Inr (example_sleeping
           \<lparr>pv_error := \<lparr>pe_errno = word_of_int (- PE_INTERNAL), pe_attr = 0, pe_state = 0,
                          pe_comp = 0, pe_payload = 0\<rparr>,
            calls := [SD_BLE_GATTS_RW_AUTHORIZE_REPLY 0
                       \<lparr>ar_type = BLE_GATTS_AUTHORIZE_TYPE_WRITE,
                        ar_gatt_status = BLE_GATT_STATUS_ATTERR_WRITE_NOT_PERMITTED,
                        ar_update = False, ar_offset = 0, ar_len = 0, ar_p_data = NULL\<rparr>]\<rparr>)"
proof -
  have c: "adv_ble_evt_handler softdevice_ok
             (adv_ble_adv_event_handler adv_ble_startup BLE_ADV_EVT_SLOW)
             \<lparr>evt_conn_handle = 0, evt_params = BLE_GAP_EVT_CONNECTED\<rparr> = Inr example_sleeping"
    by (simp add: adv_ble_evt_handler_def adv_ble_evt_handler_switch_def adv_ble_adv_event_handler_def
        adv_ble_enter_sleep_def adv_ble_worker_update_ble_status_def example_sleeping_def
        adv_ble_startup_def)
  have h: "bp_entering_sleep example_sleeping" "bp_attr_event example_sleeping = no_attr_event"
    "0 < ADV_COUNT example_sleeping" "\<And>tr. softdevice_ok tr = NRF_SUCCESS"
    "wr_op (example_write 0x1001 0 [0, 0, 0, 0, 0, 0, 0, 0]) = BLE_GATTS_OP_WRITE_REQ"
    by (simp_all add: example_sleeping_def example_defs ADV_COUNT_def)
  have "adv_ble_read_req softdevice_ok example_sleeping example_read =
          Inr (example_sleeping
                \<lparr>pv_error := (pv_error example_sleeping)
                                \<lparr>pe_errno := word_of_int (- PE_INTERNAL), pe_attr := 0\<rparr>,
                 calls := calls example_sleeping @
                   [SD_BLE_GATTS_RW_AUTHORIZE_REPLY (bp_conn_handle example_sleeping)
                      \<lparr>ar_type = BLE_GATTS_AUTHORIZE_TYPE_READ,
                       ar_gatt_status = BLE_GATT_STATUS_ATTERR_READ_NOT_PERMITTED,
                       ar_update = False, ar_offset = 0, ar_len = 0, ar_p_data = NULL\<rparr>]\<rparr>) \<and>
        adv_ble_write_req softdevice_ok example_sleeping
            (example_write 0x1001 0 [0, 0, 0, 0, 0, 0, 0, 0]) =
          Inr (example_sleeping
                \<lparr>pv_error := (pv_error example_sleeping)
                                \<lparr>pe_errno := word_of_int (- PE_INTERNAL), pe_attr := 0\<rparr>,
                 calls := calls example_sleeping @
                   [SD_BLE_GATTS_RW_AUTHORIZE_REPLY (bp_conn_handle example_sleeping)
                      \<lparr>ar_type = BLE_GATTS_AUTHORIZE_TYPE_WRITE,
                       ar_gatt_status = BLE_GATT_STATUS_ATTERR_WRITE_NOT_PERMITTED,
                       ar_update = False, ar_offset = 0, ar_len = 0, ar_p_data = NULL\<rparr>]\<rparr>)"
    using sleep_request_not_aborted [where sd = softdevice_ok and g = example_sleeping
        and rd_evt = example_read
        and wr_evt = "example_write 0x1001 0 [0, 0, 0, 0, 0, 0, 0, 0]"] h
    by blast
  moreover have "pv_error example_sleeping =
      \<lparr>pe_errno = 0, pe_attr = 0, pe_state = 0, pe_comp = 0, pe_payload = 0\<rparr>"
    "calls example_sleeping = []" "bp_conn_handle example_sleeping = 0"
    by (simp_all add: example_sleeping_def adv_ble_startup_def)
  ultimately show ?thesis using c by simp
qed

subsection \<open>Disconnection\<close>

text \<open>
  Claim C7. Whenever \<^verbatim>\<open>_adv_ble_evt_handler\<close> returns from a
  \<^verbatim>\<open>BLE_GAP_EVT_DISCONNECTED\<close> event, whatever the globals were and whatever
  handle the event carries, the pending record is empty and the connection handle is
  \<^verbatim>\<open>BLE_CONN_HANDLE_INVALID\<close>; from the globals it leaves, any further disconnect
  event returns those same globals. The handler returns unless the SoftDevice refuses
  the disconnection the handler requests for an event of another connection.
\<close>

theorem disconnect_event_clears:
  assumes "evt_params ble_evt = BLE_GAP_EVT_DISCONNECTED"
  shows "(\<forall>g'. adv_ble_evt_handler sd g ble_evt = Inr g' \<longrightarrow>
            bp_attr_event g' = no_attr_event \<and>
            bp_conn_handle g' = BLE_CONN_HANDLE_INVALID \<and>
            (\<forall>sd' ble_evt'. evt_params ble_evt' = BLE_GAP_EVT_DISCONNECTED \<longrightarrow>
               adv_ble_evt_handler sd' g' ble_evt' = Inr g')) \<and>
         ((\<forall>tr. sd tr = NRF_SUCCESS) \<longrightarrow> (\<exists>g'. adv_ble_evt_handler sd g ble_evt = Inr g'))"
proof -
  have idem: "adv_ble_evt_handler sd' g' ble_evt' = Inr g'"
    if "bp_attr_event g' = no_attr_event" and "bp_conn_handle g' = BLE_CONN_HANDLE_INVALID"
      and "evt_params ble_evt' = BLE_GAP_EVT_DISCONNECTED" for sd' g' ble_evt'
  proof -
    have "g'\<lparr>bp_attr_event := no_attr_event\<rparr> = g'" using that(1) by simp
    then show ?thesis
      using that(2,3) by (simp add: adv_ble_evt_handler_def adv_ble_handle_disconnect_def)
  qed
  have clr: "bp_attr_event g' = no_attr_event \<and> bp_conn_handle g' = BLE_CONN_HANDLE_INVALID"
    if "adv_ble_evt_handler sd g ble_evt = Inr g'" for g'
    using that assms
    by (auto simp: adv_ble_evt_handler_def adv_ble_evt_handler_switch_def sd_call_def
        adv_ble_handle_disconnect_def APP_ERROR_CHECK_def split: if_splits)
  have ret: "\<exists>g'. adv_ble_evt_handler sd g ble_evt = Inr g'" if "\<forall>tr. sd tr = NRF_SUCCESS"
    using that assms
    by (simp add: adv_ble_evt_handler_def adv_ble_evt_handler_switch_def sd_call_def
        adv_ble_handle_disconnect_def APP_ERROR_CHECK_def)
  show ?thesis using idem clr ret by blast
qed

theorem disconnect_event_clears_witness:
  "adv_ble_evt_handler softdevice_ok example_pending
     \<lparr>evt_conn_handle = 0, evt_params = BLE_GAP_EVT_DISCONNECTED\<rparr>
     = Inr (example_connected\<lparr>bp_conn_handle := BLE_CONN_HANDLE_INVALID\<rparr>) \<and>
   adv_ble_evt_handler softdevice_ok (example_connected\<lparr>bp_conn_handle := BLE_CONN_HANDLE_INVALID\<rparr>)
     \<lparr>evt_conn_handle = 0, evt_params = BLE_GAP_EVT_DISCONNECTED\<rparr>
     = Inr (example_connected\<lparr>bp_conn_handle := BLE_CONN_HANDLE_INVALID\<rparr>)"
proof -
  have e: "evt_params \<lparr>evt_conn_handle = 0, evt_params = BLE_GAP_EVT_DISCONNECTED\<rparr>
             = BLE_GAP_EVT_DISCONNECTED" by simp
  have r: "adv_ble_evt_handler softdevice_ok example_pending
             \<lparr>evt_conn_handle = 0, evt_params = BLE_GAP_EVT_DISCONNECTED\<rparr>
           = Inr (example_connected\<lparr>bp_conn_handle := BLE_CONN_HANDLE_INVALID\<rparr>)"
    by (simp add: adv_ble_evt_handler_def adv_ble_evt_handler_switch_def adv_ble_handle_disconnect_def
        example_defs example_pending_def BLE_CONN_HANDLE_INVALID_def)
  with disconnect_event_clears [OF e, of softdevice_ok example_pending] e
  show ?thesis by metis
qed

subsection \<open>The reboot flag\<close>






text \<open>
  The engine never raises the flag itself. It is clear in the start-up globals, the
  connect event clears it, and no event handler, completion, timer tick or advertising
  event sets it; only code outside this file could. Hence from start-up the branch that
  requests the disconnection is not taken.
\<close>

lemma set_error_on_attr_reboot:
  "adv_ble_set_error_on_attr g e c = Inr g' \<Longrightarrow> bp_reboot g' = bp_reboot g"
  by (auto simp: set_error_on_attr_eq split: if_splits)

lemma retrieve_attribute_reboot:
  "adv_ble_retrieve_attribute g u = Inr (p, g') \<Longrightarrow> bp_reboot g' = bp_reboot g"
  by (auto simp: adv_ble_retrieve_attribute_def Let_def set_error_on_attr_eq
      split: if_splits sum.splits)

lemma write_attribute_reboot:
  "adv_ble_write_attribute g i wr_evt = (rc, g') \<Longrightarrow> bp_reboot g' = bp_reboot g"
  by (auto simp: adv_ble_write_attribute_def Let_def callback_def adv_ble_worker_feed_def
      split: if_splits option.splits)

lemma complete_write_req_reboot:
  "adv_ble_complete_write_req sd g rc = Inr g' \<Longrightarrow> bp_reboot g' = bp_reboot g"
  by (auto simp: adv_ble_complete_write_req_def Let_def set_error_on_attr_eq sd_call_def
      APP_ERROR_CHECK_def attribute_at_def split: if_splits sum.splits option.splits prod.splits)

lemma complete_read_req_reboot:
  "adv_ble_complete_read_req sd g rc = Inr g' \<Longrightarrow> bp_reboot g' = bp_reboot g"
  by (auto simp: adv_ble_complete_read_req_def Let_def set_error_on_attr_eq sd_call_def
      APP_ERROR_CHECK_def attribute_at_def split: if_splits sum.splits option.splits prod.splits)

lemma disconnect_reboot: "bp_reboot (adv_ble_disconnect sd g) = bp_reboot g"
  by (simp add: adv_ble_disconnect_def sd_call_def)

lemma write_req_reboot:
  assumes "adv_ble_write_req sd g wr_evt = Inr g'"
  shows "bp_reboot g' = bp_reboot g"
proof (cases "wr_op wr_evt = BLE_GATTS_OP_PREP_WRITE_REQ
         \<or> wr_op wr_evt = BLE_GATTS_OP_EXEC_WRITE_REQ_NOW
         \<or> wr_op wr_evt = BLE_GATTS_OP_EXEC_WRITE_REQ_CANCEL")
  case True
  with assms show ?thesis
    by (auto simp: adv_ble_write_req_def Let_def sd_call_def APP_ERROR_CHECK_def
        split: if_splits)
next
  case False
  from assms False obtain p g1 where
    r: "adv_ble_retrieve_attribute g (wr_uuid wr_evt) = Inr (p, g1)"
    by (auto simp: adv_ble_write_req_def split: sum.splits)
  have 1: "bp_reboot g1 = bp_reboot g" by (rule retrieve_attribute_reboot [OF r])
  show ?thesis
    using assms False r 1
    by (auto simp: adv_ble_write_req_def Let_def disconnect_reboot
        split: if_splits sum.splits option.splits prod.splits
        dest!: write_attribute_reboot complete_write_req_reboot)
qed

lemma read_req_reboot:
  assumes "adv_ble_read_req sd g rd_evt = Inr g'"
  shows "bp_reboot g' = bp_reboot g"
proof -
  from assms obtain p g1 where
    r: "adv_ble_retrieve_attribute g (rd_uuid rd_evt) = Inr (p, g1)"
    by (auto simp: adv_ble_read_req_def split: sum.splits)
  have 1: "bp_reboot g1 = bp_reboot g" by (rule retrieve_attribute_reboot [OF r])
  show ?thesis
    using assms r 1
    by (auto simp: adv_ble_read_req_def Let_def callback_def adv_ble_worker_feed_def
        split: if_splits sum.splits option.splits prod.splits
        dest!: complete_read_req_reboot)
qed

lemma evt_handler_switch_reboot:
  assumes "adv_ble_evt_handler_switch sd g ble_evt = Inr g'" and "bp_reboot g'"
  shows "bp_reboot g"
  using assms
  by (auto simp: adv_ble_evt_handler_switch_def Let_def sd_call_def APP_ERROR_CHECK_def
      adv_ble_handle_disconnect_def adv_ble_worker_update_ble_status_def
      adv_ble_write_attr_def adv_ble_worker_feed_def
      split: ble_evt_params.splits authorize_request.splits if_splits sum.splits prod.splits
      dest!: write_req_reboot read_req_reboot retrieve_attribute_reboot)

lemma reboot_flag_never_raised:
  "\<not> bp_reboot adv_ble_startup \<and>
   (\<not> bp_reboot g \<longrightarrow>
      (\<forall>g'. adv_ble_evt_handler sd g ble_evt = Inr g' \<longrightarrow> \<not> bp_reboot g') \<and>
      (\<forall>g'. adv_ble_complete_write_req sd g rc = Inr g' \<longrightarrow> \<not> bp_reboot g') \<and>
      (\<forall>g'. adv_ble_complete_read_req sd g rc = Inr g' \<longrightarrow> \<not> bp_reboot g') \<and>
      \<not> bp_reboot (adv_ble_worker_timer_cb sd g) \<and>
      \<not> bp_reboot (adv_ble_adv_event_handler g ble_adv_evt))"
proof -
  have h: "\<not> bp_reboot g'" if "\<not> bp_reboot g" "adv_ble_evt_handler sd g ble_evt = Inr g'" for g'
    using that
    by (auto simp: adv_ble_evt_handler_def adv_ble_handle_disconnect_def sd_call_def
        APP_ERROR_CHECK_def Let_def
        split: if_splits ble_evt_params.splits sum.splits
        dest!: evt_handler_switch_reboot)
  have t: "bp_reboot (adv_ble_worker_timer_cb sd g) = bp_reboot g"
    by (simp add: adv_ble_worker_timer_cb_def Let_def disconnect_reboot
        adv_ble_worker_run_next_def)
  have a: "bp_reboot (adv_ble_adv_event_handler g ble_adv_evt) = bp_reboot g"
    by (cases ble_adv_evt)
      (simp_all add: adv_ble_adv_event_handler_def adv_ble_enter_sleep_def callback_def)
  show ?thesis
    using h t a complete_write_req_reboot [of sd g rc] complete_read_req_reboot [of sd g rc]
    by (auto simp: adv_ble_startup_def)
qed

subsection \<open>The stalled-connection watchdog\<close>

text \<open>
  Claim C8. On a timer tick with the workers disabled, the time is first advanced by
  \<^verbatim>\<open>ADV_BLE_WORKER_PACE_S\<close>; if it then exceeds the last-activity time by more
  than \<^verbatim>\<open>ADV_BLE_STALL_DELAY_S\<close> (32-bit unsigned arithmetic) and the connection
  handle is set, the tick calls \<^verbatim>\<open>sd_ble_gap_disconnect\<close> for that handle, once;
  if the connection handle is \<^verbatim>\<open>BLE_CONN_HANDLE_INVALID\<close>, the tick calls nothing.
  The tick itself never changes the connection handle, so the second case applies to
  every tick after the handle has been cleared.
\<close>

theorem stalled_connection_watchdog:
  assumes "\<not> we_enable g"
    and "we_time g + ADV_BLE_WORKER_PACE_S - we_last_time g > ADV_BLE_STALL_DELAY_S"
  shows "(bp_conn_handle g \<noteq> BLE_CONN_HANDLE_INVALID \<longrightarrow>
            calls (adv_ble_worker_timer_cb sd g) =
              calls g @ [SD_BLE_GAP_DISCONNECT (bp_conn_handle g)
                           BLE_HCI_REMOTE_USER_TERMINATED_CONNECTION]) \<and>
         (bp_conn_handle g = BLE_CONN_HANDLE_INVALID \<longrightarrow>
            calls (adv_ble_worker_timer_cb sd g) = calls g) \<and>
         bp_conn_handle (adv_ble_worker_timer_cb sd g) = bp_conn_handle g"
  using assms
  by (auto simp: adv_ble_worker_timer_cb_def adv_ble_disconnect_def sd_call_def Let_def)

theorem stalled_connection_watchdog_witness:
  "calls (adv_ble_worker_timer_cb softdevice_ok (example_connected\<lparr>we_time := 120\<rparr>)) =
     [SD_BLE_GAP_DISCONNECT 0 BLE_HCI_REMOTE_USER_TERMINATED_CONNECTION] \<and>
   calls (adv_ble_worker_timer_cb softdevice_ok
            (example_connected\<lparr>we_time := 125, bp_conn_handle := BLE_CONN_HANDLE_INVALID\<rparr>)) = []"
  using stalled_connection_watchdog [of "example_connected\<lparr>we_time := 120\<rparr>" softdevice_ok]
    stalled_connection_watchdog
      [of "example_connected\<lparr>we_time := 125, bp_conn_handle := BLE_CONN_HANDLE_INVALID\<rparr>"
        softdevice_ok]
  by (simp add: example_defs ADV_BLE_WORKER_PACE_S_def ADV_BLE_STALL_DELAY_S_def
      BLE_CONN_HANDLE_INVALID_def)

end
